theory Spec2Isabelle
  imports Complex_Main "HOL-Library.Word"
begin

unbundle bit_operations_syntax

section \<open>Yuneec camera control: a shallow embedding of YuneecCameraControl.cc\<close>

text \<open>
  The class \<open>YuneecCameraControl\<close> is a record of the members its methods read and
  write; a method is a function from the object to the updated object. Signals that are
  emitted, sounds that are played, timers that are armed with \<open>QTimer::singleShot\<close> and
  requests handed to the base class \<open>QGCCameraControl\<close> are appended, in program order,
  to the field \<open>trace\<close>.
\<close>

subsection \<open>Constants of the MAVLink headers\<close>

definition MAV_COMP_ID_GIMBAL :: "8 word" where
  "MAV_COMP_ID_GIMBAL = 154"

definition MAV_CMD_PREFLIGHT_CALIBRATION :: "16 word" where
  "MAV_CMD_PREFLIGHT_CALIBRATION = 241"

definition MAV_CMD_REQUEST_AUTOPILOT_CAPABILITIES :: "16 word" where
  "MAV_CMD_REQUEST_AUTOPILOT_CAPABILITIES = 520"

subsection \<open>Enumerations\<close>

datatype video_status =
  VIDEO_CAPTURE_STATUS_STOPPED | VIDEO_CAPTURE_STATUS_RUNNING | VIDEO_CAPTURE_STATUS_UNDEFINED

datatype photo_status =
  PHOTO_CAPTURE_IDLE | PHOTO_CAPTURE_IN_PROGRESS | PHOTO_CAPTURE_INTERVAL_IDLE
  | PHOTO_CAPTURE_INTERVAL_IN_PROGRESS | PHOTO_CAPTURE_STATUS_UNDEFINED

datatype camera_mode = CAM_MODE_UNDEFINED | CAM_MODE_PHOTO | CAM_MODE_VIDEO


datatype sound = CameraSound | VideoSound | ErrorSound

datatype slot = DelayedTakePhoto | DelayedStartVideo | SendUpdates

datatype request = TakePhoto | StartVideo | StopVideo | ToggleVideo | RequestAllParameters

datatype event =
    GimbalVersionChanged | GimbalCalOnChanged | GimbalProgressChanged
  | RecordTimeChanged | ActiveSettingsChanged | VideoSizeChanged | IsCGOETChanged
  | SendMavCommand "8 word" "16 word" "int list"
  | Play sound nat
  | SingleShot nat slot
  | Base request

subsection \<open>The object\<close>

text \<open>
  One entry of \<open>_valueExclusions\<close>: when the parameter \<open>param\<close> has the value
  \<open>trigger\<close> (compared as text), the parameters \<open>exclusions\<close> are not editable.
\<close>

record exclusion =
  param :: string
  trigger :: string
  exclusions :: "string list"

text \<open>
  The members of the base class that the methods below consult come first, then the
  members of \<open>YuneecCameraControl\<close>. A parameter (\<open>Fact\<close>) is looked up by name in
  \<open>facts\<close> and holds its raw value as \<open>toUInt()\<close> reads it. \<open>_gimbalTimer\<close> is a
  single-shot timer: \<open>None\<close> when idle, \<open>Some ms\<close> when armed with that interval.
  \<open>_recTime\<close> is a \<open>QTime\<close>: milliseconds since midnight. The header that declares
  the members is not part of the sources; \<open>_gimbalProgress\<close> and \<open>_recordTime\<close>
  are integers wide enough for every value assigned to them here.
\<close>

record camera =
  defaultComponentId :: int
  videoStatus :: video_status
  photoStatus :: photo_status
  cameraMode :: camera_mode
  storageTotal :: nat
  storageFree :: nat
  photosInVideoMode :: bool
  facts :: "string \<rightharpoonup> 32 word"
  settings :: "string list"
  activeSettings :: "string list"
  valueExclusions :: "exclusion list"
  gimbalCalOn :: bool
  gimbalProgress :: int
  gimbalTimer :: "nat option"
  gimbalVersion :: string
  recordTime :: int
  recTime :: int
  recTimer :: bool
  paramComplete :: bool
  isE90 :: bool
  isCGOET :: bool
  inMissionMode :: bool
  videoSize :: "int \<times> int"
  trace :: "event list"

definition emit :: "event \<Rightarrow> camera \<Rightarrow> camera" where
  "emit e s = s\<lparr>trace := trace s @ [e]\<rparr>"

text \<open>\<open>sound.setLoopCount(n); sound.play()\<close>\<close>

definition play :: "sound \<Rightarrow> nat \<Rightarrow> camera \<Rightarrow> camera" where
  "play sd n s = emit (Play sd n) s"

subsection \<open>Gimbal calibration\<close>

text \<open>
  \<open>calibrateGimbal()\<close>: the calibration command, addressed to the gimbal, with the
  gimbal flag in its fifth parameter.
\<close>

definition calibrateGimbal :: "camera \<Rightarrow> camera" where
  "calibrateGimbal s =
     emit (SendMavCommand MAV_COMP_ID_GIMBAL MAV_CMD_PREFLIGHT_CALIBRATION [0, 0, 0, 0, 1, 0, 0]) s"

text \<open>\<open>_handleGimbalResult(uint16_t result, uint8_t progress)\<close>\<close>

definition handleGimbalResult :: "camera \<Rightarrow> 16 word \<Rightarrow> 8 word \<Rightarrow> camera" where
  "handleGimbalResult s result progress =
     (let s1 =
            (if gimbalCalOn s then
               (if progress = 255 then
                  emit GimbalCalOnChanged
                    (s\<lparr>gimbalTimer := None, gimbalProgress := 100, gimbalCalOn := False\<rparr>)
                else s)
             else
               (if progress \<noteq> 0 \<and> progress < 255 then
                  emit GimbalCalOnChanged (s\<lparr>gimbalCalOn := True\<rparr>)
                else s));
          s2 =
            (if progress < 255 then
               (let s' = s1\<lparr>gimbalProgress := uint progress\<rparr>
                in if progress = 99 then s'\<lparr>gimbalTimer := Some 5000\<rparr> else s')
             else s1)
      in emit GimbalProgressChanged s2)"

text \<open>\<open>_gimbalCalTimeout()\<close>, the slot of \<open>_gimbalTimer\<close>\<close>

definition gimbalCalTimeout :: "camera \<Rightarrow> camera" where
  "gimbalCalTimeout s =
     (if gimbalProgress s = 99 then
        emit GimbalCalOnChanged
          (emit GimbalProgressChanged (s\<lparr>gimbalProgress := 100, gimbalCalOn := False\<rparr>))
      else s)"

text \<open>
  The single-shot \<open>_gimbalTimer\<close> expires: an armed timer goes idle and runs its slot,
  an idle timer does nothing.
\<close>

definition gimbalTimer_expires :: "camera \<Rightarrow> camera" where
  "gimbalTimer_expires s =
     (case gimbalTimer s of
        None \<Rightarrow> s
      | Some ms \<Rightarrow> gimbalCalTimeout (s\<lparr>gimbalTimer := None\<rparr>))"

text \<open>
  \<open>_handleCommandAck\<close>: the decoded acknowledgment is consumed only for the
  calibration command and only from the gimbal component.
\<close>

record command_ack =
  ack_compid :: "8 word"
  ack_command :: "16 word"
  ack_result :: "16 word"
  ack_progress :: "8 word"

definition handleCommandAck :: "camera \<Rightarrow> command_ack \<Rightarrow> camera" where
  "handleCommandAck s ack =
     (if ack_command ack = MAV_CMD_PREFLIGHT_CALIBRATION then
        (if ack_compid ack = MAV_COMP_ID_GIMBAL then
           handleGimbalResult s (ack_result ack) (ack_progress ack)
         else s)
      else s)"

text \<open>An acknowledgment of the calibration command sent by the gimbal.\<close>

definition gimbal_ack :: "8 word \<Rightarrow> command_ack" where
  "gimbal_ack p =
     \<lparr>ack_compid = MAV_COMP_ID_GIMBAL, ack_command = MAV_CMD_PREFLIGHT_CALIBRATION,
      ack_result = 0, ack_progress = p\<rparr>"

text \<open>
  The states of the specification, read off the two members: the calibration is
  active (\<open>InProgress\<close>, or \<open>Settling\<close> at 99 percent) while \<open>_gimbalCalOn\<close> is set;
  it is \<open>Complete\<close> when the flag is clear and the progress is 100.
\<close>

datatype cal_state = Inactive | InProgress | Settling | Complete

definition calState :: "camera \<Rightarrow> cal_state" where
  "calState s =
     (if gimbalCalOn s then (if gimbalProgress s = 99 then Settling else InProgress)
      else if gimbalProgress s = 100 then Complete else Inactive)"

subsection \<open>Gimbal version\<close>

text \<open>\<open>sprintf("%d", n)\<close> for a number that is not negative.\<close>

function dec :: "nat \<Rightarrow> string" where
  "dec n =
     (if n < 10 then [''0123456789'' ! n]
      else dec (n div 10) @ [''0123456789'' ! (n mod 10)])"
  by pat_completeness auto
termination
  by (relation "measure (\<lambda>n. n)") auto

declare dec.simps [simp del]

record autopilot_version =
  av_compid :: "8 word"
  flight_sw_version :: "32 word"

text \<open>\<open>_handleHardwareVersion\<close>\<close>

definition handleHardwareVersion :: "camera \<Rightarrow> autopilot_version \<Rightarrow> camera" where
  "handleHardwareVersion s msg =
     (if av_compid msg = MAV_COMP_ID_GIMBAL then
        (let major = drop_bit (8 * 3) (flight_sw_version msg) AND 0xFF;
             minor = drop_bit (8 * 2) (flight_sw_version msg) AND 0xFF;
             patch = drop_bit (8 * 1) (flight_sw_version msg) AND 0xFF
         in emit GimbalVersionChanged
              (s\<lparr>gimbalVersion :=
                   dec (unat major) @ ''.'' @ dec (unat minor) @ ''.'' @ dec (unat patch)\<rparr>))
      else s)"

subsection \<open>Flight mode\<close>

text \<open>
  A decoded heartbeat. The header \<open>px4_custom_mode.h\<close>, which lays the sub-mode out
  inside \<open>custom_mode\<close> and declares \<open>PX4_CUSTOM_SUB_MODE_AUTO_MISSION\<close>, is not part
  of the sources: the message carries the sub-mode as a field of its own, and the
  constant is the first argument of \<open>handleHeartBeat\<close>.
\<close>

record heartbeat =
  hb_compid :: "8 word"
  hb_sub_mode :: "8 word"

text \<open>The base class's \<open>_requestAllParameters()\<close>, recorded as a request.\<close>

definition requestAllParameters :: "camera \<Rightarrow> camera" where
  "requestAllParameters s = emit (Base RequestAllParameters) s"

text \<open>\<open>_handleHeartBeat\<close>\<close>

definition handleHeartBeat :: "8 word \<Rightarrow> camera \<Rightarrow> heartbeat \<Rightarrow> camera" where
  "handleHeartBeat AUTO_MISSION s msg =
     (if uint (hb_compid msg) = defaultComponentId s then
        (if hb_sub_mode msg \<noteq> AUTO_MISSION \<and> inMissionMode s then
           requestAllParameters (s\<lparr>inMissionMode := False\<rparr>)
         else if hb_sub_mode msg = AUTO_MISSION \<and> \<not> inMissionMode s then
           s\<lparr>inMissionMode := True\<rparr>
         else s)
      else s)"

text \<open>The number of full parameter resynchronisations requested so far.\<close>

definition resyncs :: "camera \<Rightarrow> nat" where
  "resyncs s = length (filter (\<lambda>e. e = Base RequestAllParameters) (trace s))"

text \<open>
  How often a sequence of sub-modes leaves the mission value: the positions whose
  sub-mode is not the mission value while the one before was. \<open>prev\<close> says whether
  the sub-mode before the sequence was the mission value.
\<close>

fun mission_exits :: "8 word \<Rightarrow> bool \<Rightarrow> 8 word list \<Rightarrow> nat" where
  "mission_exits AUTO_MISSION prev [] = 0"
| "mission_exits AUTO_MISSION prev (m # ms) =
     (if prev \<and> m \<noteq> AUTO_MISSION then 1 else 0)
     + mission_exits AUTO_MISSION (m = AUTO_MISSION) ms"

subsection \<open>Value reconciler\<close>








subsection \<open>Parameters\<close>

definition kCAM_MODE :: string where "kCAM_MODE = ''CAM_MODE''"
definition kCAM_SPOTAREA :: string where "kCAM_SPOTAREA = ''CAM_SPOTAREA''"
definition kCAM_VIDFMT :: string where "kCAM_VIDFMT = ''CAM_VIDFMT''"
definition kCAM_VIDRES :: string where "kCAM_VIDRES = ''CAM_VIDRES''"
definition kCAM_IRPALETTE :: string where "kCAM_IRPALETTE = ''CAM_IRPALETTE''"

text \<open>
  Modelled from the spec: \<open>Fact::setRawValue\<close> belongs to the parameter registry,
  which is not part of the sources; the registry's set-value operation stores the value
  under the parameter's name.
\<close>

definition Fact_setRawValue :: "string \<Rightarrow> 32 word \<Rightarrow> camera \<Rightarrow> camera" where
  "Fact_setRawValue name v s = s\<lparr>facts := (facts s)(name \<mapsto> v)\<rparr>"

text \<open>\<open>Fact::rawValueString()\<close> of an unsigned value.\<close>

definition rawValueString :: "32 word \<Rightarrow> string" where
  "rawValueString v = dec (unat v)"

subsection \<open>Capture status and recording time\<close>

definition MSECS_PER_DAY :: int where
  "MSECS_PER_DAY = 86400000"

text \<open>
  \<open>QTime::elapsed()\<close> at the time of day \<open>now\<close>, for a clock started at \<open>t\<close>: the
  milliseconds from \<open>t\<close> to \<open>now\<close>, a day added when midnight has passed.
\<close>

definition QTime_elapsed :: "int \<Rightarrow> int \<Rightarrow> int" where
  "QTime_elapsed now t = (let n = now - t in if n < 0 then n + MSECS_PER_DAY else n)"

text \<open>\<open>QTime::addMSecs(ms)\<close>: the time of day \<open>ms\<close> later, wrapping at midnight.\<close>

definition QTime_addMSecs :: "int \<Rightarrow> int \<Rightarrow> int" where
  "QTime_addMSecs t ms = (t + ms) mod MSECS_PER_DAY"

text \<open>
  Modelled from the spec: the base class's \<open>_setVideoStatus\<close> is not part of the
  sources; it stores the status.
\<close>

definition QGC_setVideoStatus :: "camera \<Rightarrow> video_status \<Rightarrow> camera" where
  "QGC_setVideoStatus s status = s\<lparr>videoStatus := status\<rparr>"

text \<open>
  The exclusion list that \<open>_setVideoStatus\<close> collects: the exclusions of every rule
  whose parameter exists and currently has the rule's value.
\<close>

definition exclusionList :: "camera \<Rightarrow> string list" where
  "exclusionList s =
     concat
       (map (\<lambda>p. case facts s (param p) of
                   None \<Rightarrow> []
                 | Some raw \<Rightarrow> if trigger p = rawValueString raw then exclusions p else [])
          (valueExclusions s))"

text \<open>\<open>_setVideoStatus(status)\<close>, run at the time of day \<open>now\<close>\<close>

definition setVideoStatus :: "int \<Rightarrow> camera \<Rightarrow> video_status \<Rightarrow> camera" where
  "setVideoStatus now s status =
     (let oldStatus = videoStatus s;
          s0 = QGC_setVideoStatus s status
      in if oldStatus \<noteq> status then
           (if status = VIDEO_CAPTURE_STATUS_RUNNING then
              (let s1 = play VideoSound 1 (s0\<lparr>recordTime := 0, recTime := now, recTimer := True\<rparr>)
               in if \<not> isCGOET s1 then
                    emit ActiveSettingsChanged
                      (s1\<lparr>activeSettings :=
                            remove1 kCAM_VIDFMT (remove1 kCAM_VIDRES (activeSettings s1))\<rparr>)
                  else s1)
            else
              (let s1 = emit RecordTimeChanged (s0\<lparr>recTimer := False, recordTime := 0\<rparr>)
               in if oldStatus = VIDEO_CAPTURE_STATUS_UNDEFINED then play VideoSound 1 s1
                  else
                    (let active = filter (\<lambda>key. key \<notin> set (exclusionList s1)) (settings s1);
                         s2 = (if active \<noteq> activeSettings s1 then
                                 emit ActiveSettingsChanged (s1\<lparr>activeSettings := active\<rparr>)
                               else s1)
                     in play VideoSound 2 s2)))
         else s0)"

record capture_status =
  cap_video_status :: video_status
  recording_time_ms :: "32 word"

text \<open>
  Modelled from the spec: the base class's \<open>handleCaptureStatus\<close> is not part of the
  sources; it hands the status field of the telemetry to \<open>_setVideoStatus\<close>, which
  compares it with the previous status.
\<close>

definition QGC_handleCaptureStatus :: "int \<Rightarrow> camera \<Rightarrow> capture_status \<Rightarrow> camera" where
  "QGC_handleCaptureStatus now s cap = setVideoStatus now s (cap_video_status cap)"

text \<open>
  \<open>handleCaptureStatus(cap)\<close> at the time of day \<open>now\<close>. The difference
  \<open>_recTime.elapsed() - cap.recording_time_ms\<close> is computed in \<open>uint32_t\<close> and
  converted to the \<open>int\<close> that \<open>addMSecs\<close> takes.
\<close>

definition handleCaptureStatus :: "int \<Rightarrow> camera \<Rightarrow> capture_status \<Rightarrow> camera" where
  "handleCaptureStatus now s cap =
     (let s1 = QGC_handleCaptureStatus now s cap
      in if videoStatus s1 = VIDEO_CAPTURE_STATUS_RUNNING then
           emit RecordTimeChanged
             (s1\<lparr>recordTime := uint (recording_time_ms cap),
                 recTime :=
                   QTime_addMSecs (recTime s1)
                     (sint (word_of_int (QTime_elapsed now (recTime s1))
                            - recording_time_ms cap :: 32 word))\<rparr>)
         else s1)"

text \<open>\<open>_recTimerHandler()\<close>, the slot of the periodic \<open>_recTimer\<close>\<close>

definition recTimerHandler :: "int \<Rightarrow> camera \<Rightarrow> camera" where
  "recTimerHandler now s = emit RecordTimeChanged (s\<lparr>recordTime := QTime_elapsed now (recTime s)\<rparr>)"

text \<open>A tick of \<open>_recTimer\<close> at the time of day \<open>now\<close>: the slot runs while the timer is active.\<close>

definition recTimer_tick :: "int \<Rightarrow> camera \<Rightarrow> camera" where
  "recTimer_tick now s = (if recTimer s then recTimerHandler now s else s)"

subsection \<open>Spot area\<close>






subsection \<open>Capture actions\<close>

text \<open>
  Modelled from the spec: the capture requests of the base class (\<open>takePhoto\<close>,
  \<open>startVideo\<close>, \<open>stopVideo\<close>, \<open>toggleVideo\<close>) are not part of the sources. A
  request is recorded in the trace; whether it is accepted is the argument \<open>accepted\<close>.
\<close>

definition QGC_request :: "request \<Rightarrow> bool \<Rightarrow> camera \<Rightarrow> bool \<times> camera" where
  "QGC_request r accepted s = (accepted, emit (Base r) s)"


text \<open>\<open>startVideo()\<close>\<close>

definition startVideo :: "bool \<Rightarrow> camera \<Rightarrow> bool \<times> camera" where
  "startVideo accepted s =
     (case QGC_request StartVideo accepted s of
        (res, s1) \<Rightarrow> if \<not> res then (res, play ErrorSound 1 s1) else (res, s1))"

text \<open>\<open>stopVideo()\<close>\<close>

definition stopVideo :: "bool \<Rightarrow> camera \<Rightarrow> bool \<times> camera" where
  "stopVideo accepted s =
     (case QGC_request StopVideo accepted s of
        (res, s1) \<Rightarrow> if \<not> res then (res, play ErrorSound 1 s1) else (res, s1))"







subsection \<open>Thermal palette\<close>

definition kPaleteBars :: "string list" where
  "kPaleteBars =
     [''Fusion'', ''Rainbow'', ''Globow'', ''IceFire'', ''IronBlack'', ''WhiteHot'',
      ''BlackHot'', ''Rain'', ''Iron'', ''GrayRed'', ''GrayFusion'']"

text \<open>
  Indexing a C array: inside the array the element, outside of it no defined result.
\<close>

definition at_index :: "'a list \<Rightarrow> nat \<Rightarrow> 'a option" where
  "at_index xs i = (if i < length xs then Some (xs ! i) else None)"

text \<open>
  \<open>palettetBar()\<close>: the address of the palette image, or \<open>None\<close> when the table
  is read outside its bounds.
\<close>

definition palettetBar :: "camera \<Rightarrow> string option" where
  "palettetBar s =
     (case at_index kPaleteBars 0 of
        None \<Rightarrow> None
      | Some bar0 \<Rightarrow>
          (let barStr =
                 (if isCGOET s then
                    (case facts s kCAM_IRPALETTE of
                       Some raw \<Rightarrow>
                         if raw < 11 then at_index kPaleteBars (unat raw) else Some bar0
                     | None \<Rightarrow> Some bar0)
                  else Some bar0)
           in map_option (\<lambda>b. ''qrc:/typhoonh/img/flir-'' @ b @ ''.png'') barStr))"

subsection \<open>Construction\<close>

text \<open>\<open>QString::contains\<close>\<close>

fun contains :: "string \<Rightarrow> string \<Rightarrow> bool" where
  "contains [] sub = (sub = [])"
| "contains (c # cs) sub = (take (length sub) (c # cs) = sub \<or> contains cs sub)"

text \<open>
  The constructor, on the object as the base class's constructor leaves it: the member
  initialisers, the request for the gimbal's version and the device type read off the
  model name. The timers are idle, the version string is empty and the video size is
  the invalid \<open>QSize()\<close>.
\<close>

definition YuneecCameraControl :: "camera \<Rightarrow> string \<Rightarrow> camera" where
  "YuneecCameraControl base modelName =
     (let s0 = base\<lparr>gimbalCalOn := False, gimbalProgress := 0, gimbalTimer := None,
                    gimbalVersion := [], recordTime := 0, recTimer := False,
                    paramComplete := False, isE90 := False, isCGOET := False,
                    inMissionMode := False, videoSize := (- 1, - 1)\<rparr>;
          s1 = emit (SendMavCommand MAV_COMP_ID_GIMBAL MAV_CMD_REQUEST_AUTOPILOT_CAPABILITIES [1]) s0;
          s2 = s1\<lparr>isE90 := contains modelName ''E90'', isCGOET := contains modelName ''CGOET''\<rparr>
      in if isCGOET s2 then emit IsCGOETChanged s2 else s2)"

text \<open>
  An object of the base class for the examples: a camera with a card of storage, in
  photo mode and idle, with the parameters the methods look up.
\<close>

definition example_base :: camera where
  "example_base =
     \<lparr>defaultComponentId = 1, videoStatus = VIDEO_CAPTURE_STATUS_UNDEFINED,
      photoStatus = PHOTO_CAPTURE_IDLE, cameraMode = CAM_MODE_PHOTO,
      storageTotal = 30000, storageFree = 20000, photosInVideoMode = False,
      facts = [kCAM_MODE \<mapsto> 0, kCAM_SPOTAREA \<mapsto> 0, kCAM_IRPALETTE \<mapsto> 3],
      settings = [kCAM_MODE, kCAM_VIDRES, kCAM_VIDFMT],
      activeSettings = [kCAM_MODE, kCAM_VIDRES, kCAM_VIDFMT],
      valueExclusions = [],
      gimbalCalOn = False, gimbalProgress = 0, gimbalTimer = None, gimbalVersion = [],
      recordTime = 0, recTime = 0, recTimer = False, paramComplete = False,
      isE90 = False, isCGOET = False, inMissionMode = False, videoSize = (0, 0),
      trace = []\<rparr>"

definition example_camera :: camera where
  "example_camera = YuneecCameraControl example_base ''E90''"

definition example_thermal :: camera where
  "example_thermal = YuneecCameraControl example_base ''CGOET''"


text \<open>A capability response of the gimbal, version 1.2.3.\<close>

definition example_version :: autopilot_version where
  "example_version = \<lparr>av_compid = MAV_COMP_ID_GIMBAL, flight_sw_version = 0x01020300\<rparr>"

text \<open>The change notifications of the gimbal version emitted so far.\<close>

definition versionChanges :: "camera \<Rightarrow> nat" where
  "versionChanges s = length (filter (\<lambda>e. e = GimbalVersionChanged) (trace s))"

text \<open>A heartbeat of the vehicle's default component with the given sub-mode.\<close>

definition example_heartbeat :: "8 word \<Rightarrow> heartbeat" where
  "example_heartbeat m = \<lparr>hb_compid = 1, hb_sub_mode = m\<rparr>"

text \<open>Capture-status telemetry of a running recording, 900 ms long.\<close>

definition example_capture :: capture_status where
  "example_capture =
     \<lparr>cap_video_status = VIDEO_CAPTURE_STATUS_RUNNING, recording_time_ms = 900\<rparr>"

text \<open>
  A video session started at 40000 ms after midnight, followed by the ticks of the
  recording timer at 40333, 40666 and 40999 ms.
\<close>

definition example_recording :: camera where
  "example_recording =
     recTimer_tick 40999 (recTimer_tick 40666 (recTimer_tick 40333
       (setVideoStatus 40000
          (setVideoStatus 0 example_camera VIDEO_CAPTURE_STATUS_STOPPED)
          VIDEO_CAPTURE_STATUS_RUNNING)))"

section \<open>Properties\<close>

lemmas cam_defs = example_camera_def YuneecCameraControl_def example_base_def emit_def Let_def

lemmas cal_defs = handleCommandAck_def gimbal_ack_def handleGimbalResult_def gimbalCalTimeout_def
  gimbalTimer_expires_def calState_def emit_def MAV_COMP_ID_GIMBAL_def
  MAV_CMD_PREFLIGHT_CALIBRATION_def

lemma u8_lt_255: "p \<noteq> (255::8 word) \<Longrightarrow> p < 255"
proof -
  assume "p \<noteq> 255"
  then have "unat p \<noteq> unat (255::8 word)" by (simp add: word_unat_eq_iff)
  moreover have "unat p < 2 ^ 8" using unsigned_less[of p, where 'a=nat] by simp
  ultimately show ?thesis by (simp add: word_less_nat_alt)
qed

subsection \<open>Gimbal calibration\<close>

text \<open>
  Claim C3. From a state in which no calibration is active, the gimbal's
  acknowledgments with progress 10, 50 and 99, in that order, leave the calibration
  settling at 99 percent with the stall timer armed for 5000 ms; when that timer then
  expires with no further acknowledgment, the state is Complete, the progress is 100,
  the calibration-active flag is clear and the timer is idle.
\<close>

theorem calibration_stall_completes:
  assumes "\<not> gimbalCalOn s"
  shows "calState (foldl handleCommandAck s [gimbal_ack 10, gimbal_ack 50, gimbal_ack 99]) = Settling
    \<and> gimbalTimer (foldl handleCommandAck s [gimbal_ack 10, gimbal_ack 50, gimbal_ack 99]) = Some 5000
    \<and> calState (gimbalTimer_expires
          (foldl handleCommandAck s [gimbal_ack 10, gimbal_ack 50, gimbal_ack 99])) = Complete
    \<and> gimbalProgress (gimbalTimer_expires
          (foldl handleCommandAck s [gimbal_ack 10, gimbal_ack 50, gimbal_ack 99])) = 100
    \<and> \<not> gimbalCalOn (gimbalTimer_expires
          (foldl handleCommandAck s [gimbal_ack 10, gimbal_ack 50, gimbal_ack 99]))
    \<and> gimbalTimer (gimbalTimer_expires
          (foldl handleCommandAck s [gimbal_ack 10, gimbal_ack 50, gimbal_ack 99])) = None"
  using assms by (simp add: cal_defs)

text \<open>The same on a freshly constructed camera, which is Inactive.\<close>

theorem calibration_stall_completes_witness:
  "calState example_camera = Inactive
   \<and> calState (gimbalTimer_expires
        (foldl handleCommandAck example_camera [gimbal_ack 10, gimbal_ack 50, gimbal_ack 99])) = Complete
   \<and> gimbalProgress (gimbalTimer_expires
        (foldl handleCommandAck example_camera [gimbal_ack 10, gimbal_ack 50, gimbal_ack 99])) = 100
   \<and> \<not> gimbalCalOn (gimbalTimer_expires
        (foldl handleCommandAck example_camera [gimbal_ack 10, gimbal_ack 50, gimbal_ack 99]))"
proof -
  have h: "\<not> gimbalCalOn example_camera" by (simp add: cam_defs)
  have i: "calState example_camera = Inactive" by (simp add: cam_defs calState_def)
  from calibration_stall_completes [OF h] i show ?thesis by simp
qed

text \<open>
  Claim C9, as amended. While the calibration is active (InProgress or Settling) after
  an acknowledgment, the stored progress is the progress value of that acknowledgment
  and lies between 0 and 254; it is at most 100 when the reported value is, and it has
  not decreased when the reported value is not below the value stored before.
\<close>

theorem progress_follows_ack:
  assumes "gimbalCalOn (handleGimbalResult s r p)"
  shows "gimbalProgress (handleGimbalResult s r p) = uint p
    \<and> 0 \<le> gimbalProgress (handleGimbalResult s r p)
    \<and> gimbalProgress (handleGimbalResult s r p) \<le> 254
    \<and> (uint p \<le> 100 \<longrightarrow> gimbalProgress (handleGimbalResult s r p) \<le> 100)
    \<and> (gimbalProgress s \<le> uint p \<longrightarrow>
          gimbalProgress s \<le> gimbalProgress (handleGimbalResult s r p))"
proof -
  have "p \<noteq> 255"
    using assms by (auto simp: handleGimbalResult_def emit_def Let_def split: if_splits)
  then have lt: "p < 255" by (rule u8_lt_255)
  then have eq: "gimbalProgress (handleGimbalResult s r p) = uint p"
    by (simp add: handleGimbalResult_def emit_def Let_def)
  have "uint p < 255" using lt by (simp add: word_less_def)
  with eq show ?thesis by simp
qed

theorem progress_follows_ack_witness:
  "gimbalCalOn (handleGimbalResult example_camera 0 50)
   \<and> gimbalProgress (handleGimbalResult example_camera 0 50) = 50"
proof -
  have h: "gimbalCalOn (handleGimbalResult example_camera 0 50)"
    by (simp add: cal_defs cam_defs)
  from progress_follows_ack [OF h] h show ?thesis by simp
qed

text \<open>
  Claim C9 as stated fails: with the calibration in progress at 50 percent an
  acknowledgment with progress 10 lowers the stored progress to 10, and an
  acknowledgment with progress 200 stores 200, in both cases with the calibration
  still in progress.
\<close>

theorem progress_range_monotone_counterexample:
  "calState (foldl handleCommandAck example_camera [gimbal_ack 50]) = InProgress
   \<and> gimbalProgress (foldl handleCommandAck example_camera [gimbal_ack 50]) = 50
   \<and> calState (foldl handleCommandAck example_camera [gimbal_ack 50, gimbal_ack 10]) = InProgress
   \<and> gimbalProgress (foldl handleCommandAck example_camera [gimbal_ack 50, gimbal_ack 10]) = 10
   \<and> calState (foldl handleCommandAck example_camera [gimbal_ack 200]) = InProgress
   \<and> gimbalProgress (foldl handleCommandAck example_camera [gimbal_ack 200]) = 200"
  by (simp add: cal_defs cam_defs)

subsection \<open>Gimbal version\<close>

lemma versionChanges_step:
  "versionChanges (handleHardwareVersion s m) =
     versionChanges s + (if av_compid m = MAV_COMP_ID_GIMBAL then 1 else 0)"
  by (simp add: handleHardwareVersion_def emit_def versionChanges_def)

text \<open>
  Claim C7, as amended. Every capability response from the gimbal component emits one
  change notification of the gimbal version, the first and every later one alike;
  responses from other components emit none.
\<close>

theorem version_change_on_every_response:
  "versionChanges (foldl handleHardwareVersion s msgs) =
     versionChanges s + length (filter (\<lambda>m. av_compid m = MAV_COMP_ID_GIMBAL) msgs)"
  by (induction msgs arbitrary: s) (simp_all add: versionChanges_step)

text \<open>
  Claim C7 as stated fails: the same capability response of the gimbal processed twice
  emits two change notifications.
\<close>

theorem version_change_once_counterexample:
  "versionChanges example_camera = 0
   \<and> versionChanges (foldl handleHardwareVersion example_camera [example_version]) = 1
   \<and> versionChanges
        (foldl handleHardwareVersion example_camera [example_version, example_version]) = 2"
  by (simp add: handleHardwareVersion_def example_version_def emit_def versionChanges_def cam_defs)

subsection \<open>Thermal palette\<close>

text \<open>
  Claim C10. The palette lookup never reads the table of 11 entries outside its
  bounds: it always yields an address; and when the device is not the thermal variant,
  or the raw palette value is 11 or more, the address is that of the first entry,
  Fusion.
\<close>

theorem palettetBar_in_bounds:
  "(\<exists>url. palettetBar s = Some url)
   \<and> ((\<not> isCGOET s \<or> (\<exists>raw. facts s kCAM_IRPALETTE = Some raw \<and> 11 \<le> raw)) \<longrightarrow>
        palettetBar s = Some ''qrc:/typhoonh/img/flir-Fusion.png'')"
proof -
  have a: "\<And>raw::32 word. raw < 11 \<Longrightarrow> unat raw < 11" by (simp add: word_less_nat_alt)
  have 1: "\<exists>url. palettetBar s = Some url"
    by (auto simp: palettetBar_def at_index_def kPaleteBars_def Let_def dest: a
        split: option.splits)
  have 2: "(\<not> isCGOET s \<or> (\<exists>raw. facts s kCAM_IRPALETTE = Some raw \<and> 11 \<le> raw)) \<longrightarrow>
        palettetBar s = Some ''qrc:/typhoonh/img/flir-Fusion.png''"
    by (auto simp: palettetBar_def at_index_def kPaleteBars_def Let_def split: option.splits)
  from 1 2 show ?thesis by blast
qed

theorem palettetBar_in_bounds_witness:
  "palettetBar (Fact_setRawValue kCAM_IRPALETTE 11 example_thermal)
     = Some ''qrc:/typhoonh/img/flir-Fusion.png''
   \<and> palettetBar example_camera = Some ''qrc:/typhoonh/img/flir-Fusion.png''
   \<and> palettetBar (Fact_setRawValue kCAM_IRPALETTE 10 example_thermal)
     = Some ''qrc:/typhoonh/img/flir-GrayFusion.png''"
proof -
  have "palettetBar (Fact_setRawValue kCAM_IRPALETTE 11 example_thermal)
          = Some ''qrc:/typhoonh/img/flir-Fusion.png''"
    using palettetBar_in_bounds [of "Fact_setRawValue kCAM_IRPALETTE 11 example_thermal"]
    by (simp add: Fact_setRawValue_def example_thermal_def cam_defs)
  moreover have "palettetBar example_camera = Some ''qrc:/typhoonh/img/flir-Fusion.png''"
    using palettetBar_in_bounds [of example_camera] by (simp add: cam_defs)
  moreover have "palettetBar (Fact_setRawValue kCAM_IRPALETTE 10 example_thermal)
          = Some ''qrc:/typhoonh/img/flir-GrayFusion.png''"
    by (simp add: palettetBar_def Fact_setRawValue_def example_thermal_def cam_defs at_index_def
        kPaleteBars_def)
  ultimately show ?thesis by simp
qed

subsection \<open>Shutter button\<close>




subsection \<open>Flight mode\<close>

lemma handleHeartBeat_default:
  assumes "uint (hb_compid hb) = defaultComponentId s"
  shows "inMissionMode (handleHeartBeat M s hb) = (hb_sub_mode hb = M)"
    and "defaultComponentId (handleHeartBeat M s hb) = defaultComponentId s"
    and "resyncs (handleHeartBeat M s hb) =
           resyncs s + (if inMissionMode s \<and> hb_sub_mode hb \<noteq> M then 1 else 0)"
  using assms by (auto simp: handleHeartBeat_def requestAllParameters_def emit_def resyncs_def)

lemma resyncs_count:
  "\<forall>hb\<in>set hbs. uint (hb_compid hb) = defaultComponentId s \<Longrightarrow>
   resyncs (foldl (handleHeartBeat M) s hbs) =
     resyncs s + mission_exits M (inMissionMode s) (map hb_sub_mode hbs)"
proof (induction hbs arbitrary: s)
  case Nil
  then show ?case by simp
next
  case (Cons hb hbs)
  have d: "uint (hb_compid hb) = defaultComponentId s" using Cons.prems by simp
  have "\<forall>h\<in>set hbs. uint (hb_compid h) = defaultComponentId (handleHeartBeat M s hb)"
    using Cons.prems by (simp add: handleHeartBeat_default(2) [OF d])
  from Cons.IH [OF this] show ?case
    by (simp add: handleHeartBeat_default [OF d])
qed

lemma mission_exits_append_quiet:
  "\<forall>m\<in>set rest. m \<noteq> M \<Longrightarrow> ms \<noteq> [] \<Longrightarrow> last ms \<noteq> M \<Longrightarrow>
   mission_exits M prev (ms @ rest) = mission_exits M prev ms"
proof (induction ms arbitrary: prev)
  case Nil then show ?case by simp
next
  case (Cons m ms)
  show ?case
  proof (cases "ms = []")
    case True
    have "mission_exits M False rest = 0" using Cons.prems(1) by (induction rest) auto
    with True Cons.prems show ?thesis by simp
  next
    case False
    with Cons show ?thesis by simp
  qed
qed

text \<open>
  Claim C4. For heartbeats of the vehicle's default component whose sub-modes leave the
  mission value exactly once, exactly one full parameter resynchronisation is
  requested; and when the sequence ends outside the mission value, heartbeats that
  follow with sub-modes other than the mission value request no further one.
\<close>

theorem one_exit_one_resync:
  assumes "\<forall>hb\<in>set (hbs @ rest). uint (hb_compid hb) = defaultComponentId s"
    and "mission_exits M (inMissionMode s) (map hb_sub_mode hbs) = 1"
  shows "resyncs (foldl (handleHeartBeat M) s hbs) = resyncs s + 1
    \<and> ((\<forall>hb\<in>set rest. hb_sub_mode hb \<noteq> M) \<and> hb_sub_mode (last hbs) \<noteq> M \<longrightarrow>
         resyncs (foldl (handleHeartBeat M) s (hbs @ rest)) = resyncs s + 1)"
proof -
  have ne: "hbs \<noteq> []" using assms(2) by auto
  have 1: "resyncs (foldl (handleHeartBeat M) s hbs) = resyncs s + 1"
    using resyncs_count [of hbs s M] assms by simp
  have 2: "resyncs (foldl (handleHeartBeat M) s (hbs @ rest)) = resyncs s + 1"
    if "\<forall>hb\<in>set rest. hb_sub_mode hb \<noteq> M" "hb_sub_mode (last hbs) \<noteq> M"
  proof -
    have "mission_exits M (inMissionMode s) (map hb_sub_mode hbs @ map hb_sub_mode rest) =
          mission_exits M (inMissionMode s) (map hb_sub_mode hbs)"
      using that ne by (intro mission_exits_append_quiet) (auto simp: last_map)
    then show ?thesis
      using resyncs_count [of "hbs @ rest" s M] assms by simp
  qed
  from 1 2 show ?thesis by blast
qed


theorem one_exit_one_resync_witness:
  "resyncs example_camera = 0
   \<and> resyncs (foldl (handleHeartBeat 4) example_camera [example_heartbeat 3, example_heartbeat 4, example_heartbeat 4, example_heartbeat 3]) = 1
   \<and> resyncs (foldl (handleHeartBeat 4) example_camera ([example_heartbeat 3, example_heartbeat 4, example_heartbeat 4, example_heartbeat 3] @ [example_heartbeat 3, example_heartbeat 5, example_heartbeat 3])) = 1"
proof -
  have 0: "resyncs example_camera = 0" by (simp add: resyncs_def cam_defs)
  have d: "\<forall>h\<in>set ([example_heartbeat 3, example_heartbeat 4, example_heartbeat 4, example_heartbeat 3] @ [example_heartbeat 3, example_heartbeat 5, example_heartbeat 3]).
             uint (hb_compid h) = defaultComponentId example_camera"
    by (simp add: example_heartbeat_def cam_defs)
  have e: "mission_exits 4 (inMissionMode example_camera) (map hb_sub_mode [example_heartbeat 3, example_heartbeat 4, example_heartbeat 4, example_heartbeat 3]) = 1"
    by (simp add: example_heartbeat_def cam_defs)
  from one_exit_one_resync [OF d e] 0 show ?thesis by (simp add: example_heartbeat_def)
qed


subsection \<open>Recording time\<close>

lemma QTime_elapsed_mod:
  "0 \<le> now \<Longrightarrow> now < MSECS_PER_DAY \<Longrightarrow> 0 \<le> t \<Longrightarrow> t < MSECS_PER_DAY \<Longrightarrow>
   QTime_elapsed now t = (now - t) mod MSECS_PER_DAY"
proof -
  assume a: "0 \<le> now" "now < MSECS_PER_DAY" "0 \<le> t" "t < MSECS_PER_DAY"
  show ?thesis
  proof (cases "now - t < 0")
    case True
    then have "(now - t) mod MSECS_PER_DAY = now - t + MSECS_PER_DAY"
      using a by (intro mod_pos_pos_trivial [of "now - t + MSECS_PER_DAY" MSECS_PER_DAY, simplified mod_add_self2] ) auto
    with True show ?thesis by (simp add: QTime_elapsed_def)
  next
    case False
    then have "(now - t) mod MSECS_PER_DAY = now - t" using a by simp
    with False show ?thesis by (simp add: QTime_elapsed_def)
  qed
qed

lemma sint_diff_small:
  "0 \<le> e \<Longrightarrow> e < MSECS_PER_DAY \<Longrightarrow> uint r < MSECS_PER_DAY \<Longrightarrow>
   sint (word_of_int e - r :: 32 word) = e - uint r"
proof -
  assume a: "0 \<le> e" "e < MSECS_PER_DAY" "uint r < MSECS_PER_DAY"
  have u: "0 \<le> uint r" by simp
  have "word_of_int e - r = (word_of_int (e - uint r) :: 32 word)" by simp
  then have "sint (word_of_int e - r :: 32 word) = signed_take_bit 31 (e - uint r)"
    by (simp only: sint_sbintrunc') simp
  also have "\<dots> = e - uint r"
  proof (rule signed_take_bit_int_eq_self)
    have p: "(2::int) ^ 31 = 2147483648" by simp
    show "- (2 ^ 31) \<le> e - uint r" using a u unfolding p MSECS_PER_DAY_def by linarith
    show "e - uint r < 2 ^ 31" using a u unfolding p MSECS_PER_DAY_def by linarith
  qed
  finally show ?thesis .
qed

lemma resync_clock:
  assumes "0 \<le> now" "now < MSECS_PER_DAY" "0 \<le> t" "t < MSECS_PER_DAY"
    and "0 \<le> r" "0 \<le> d" "r + d < MSECS_PER_DAY"
  shows "QTime_elapsed ((now + d) mod MSECS_PER_DAY)
           (QTime_addMSecs t (QTime_elapsed now t - r)) = r + d"
proof -
  have D: "0 < MSECS_PER_DAY" by (simp add: MSECS_PER_DAY_def)
  have "QTime_elapsed ((now + d) mod MSECS_PER_DAY) (QTime_addMSecs t (QTime_elapsed now t - r))
      = ((now + d) mod MSECS_PER_DAY - (t + ((now - t) mod MSECS_PER_DAY - r)) mod MSECS_PER_DAY) mod MSECS_PER_DAY"
    using assms D by (subst QTime_elapsed_mod) (simp_all add: QTime_addMSecs_def QTime_elapsed_mod)
  also have "\<dots> = ((now + d) - (t + ((now - t) mod MSECS_PER_DAY - r))) mod MSECS_PER_DAY"
    by (simp add: mod_diff_eq)
  also have "\<dots> = ((now + d - t + r) - (now - t) mod MSECS_PER_DAY) mod MSECS_PER_DAY"
    by (simp add: algebra_simps)
  also have "\<dots> = ((now + d - t + r) - (now - t)) mod MSECS_PER_DAY"
    by (simp add: mod_diff_right_eq)
  also have "\<dots> = (r + d) mod MSECS_PER_DAY" by (simp add: algebra_simps)
  also have "\<dots> = r + d" using assms by simp
  finally show ?thesis .
qed

lemmas cap_defs = handleCaptureStatus_def QGC_handleCaptureStatus_def setVideoStatus_def
  QGC_setVideoStatus_def recTimer_tick_def recTimerHandler_def emit_def play_def

text \<open>
  Claim C5. While a video session is running, capture-status telemetry that reports a
  running recording of \<open>r\<close> milliseconds (the claim's 900) sets the displayed recording
  time to \<open>r\<close> and leaves the periodic tick running; a tick \<open>d\<close> milliseconds later shows
  \<open>r + d\<close>. Times of day are milliseconds since midnight, and \<open>r + d\<close> stays below one
  day, where \<open>QTime\<close> wraps.
\<close>

theorem capture_status_resync:
  assumes "videoStatus s = VIDEO_CAPTURE_STATUS_RUNNING" and "recTimer s"
    and "cap_video_status cap = VIDEO_CAPTURE_STATUS_RUNNING"
    and "uint (recording_time_ms cap) + d < MSECS_PER_DAY" and "0 \<le> d"
    and "0 \<le> now" "now < MSECS_PER_DAY" "0 \<le> recTime s" "recTime s < MSECS_PER_DAY"
  shows "recordTime (handleCaptureStatus now s cap) = uint (recording_time_ms cap)
    \<and> recTimer (handleCaptureStatus now s cap)
    \<and> videoStatus (handleCaptureStatus now s cap) = VIDEO_CAPTURE_STATUS_RUNNING
    \<and> recordTime (recTimer_tick ((now + d) mod MSECS_PER_DAY) (handleCaptureStatus now s cap))
        = uint (recording_time_ms cap) + d"
proof -
  let ?r = "recording_time_ms cap"
  have e: "0 \<le> QTime_elapsed now (recTime s)" "QTime_elapsed now (recTime s) < MSECS_PER_DAY"
    using assms by (simp_all add: QTime_elapsed_mod MSECS_PER_DAY_def)
  have r: "uint ?r < MSECS_PER_DAY" using assms by simp
  have s: "sint (word_of_int (QTime_elapsed now (recTime s)) - ?r :: 32 word)
             = QTime_elapsed now (recTime s) - uint ?r"
    using e r by (rule sint_diff_small)
  have c: "QTime_elapsed ((now + d) mod MSECS_PER_DAY)
             (QTime_addMSecs (recTime s) (QTime_elapsed now (recTime s) - uint ?r)) = uint ?r + d"
    using assms by (intro resync_clock) simp_all
  show ?thesis using assms(1-3) s c by (simp add: cap_defs Let_def)
qed


text \<open>
  The scenario of the specification: the session has run for 999 ms of ticks when, at
  1000 ms, the telemetry reports 900 ms; the display shows 900, and the tick 333 ms later
  shows 1233.
\<close>

lemma example_recording_facts:
  "videoStatus example_recording = VIDEO_CAPTURE_STATUS_RUNNING" "recTimer example_recording" "recTime example_recording = 40000"
  "recordTime example_recording = 999"
  by (simp_all add: example_recording_def cap_defs cam_defs Let_def QTime_elapsed_def)

theorem capture_status_resync_witness:
  "recordTime example_recording = 999
   \<and> recordTime (handleCaptureStatus 41000 example_recording example_capture) = 900
   \<and> recTimer (handleCaptureStatus 41000 example_recording example_capture)
   \<and> recordTime (recTimer_tick 41333 (handleCaptureStatus 41000 example_recording example_capture)) = 1233"
proof -
  have "recordTime (handleCaptureStatus 41000 example_recording example_capture) = uint (recording_time_ms example_capture)
    \<and> recTimer (handleCaptureStatus 41000 example_recording example_capture)
    \<and> videoStatus (handleCaptureStatus 41000 example_recording example_capture) = VIDEO_CAPTURE_STATUS_RUNNING
    \<and> recordTime (recTimer_tick ((41000 + 333) mod MSECS_PER_DAY) (handleCaptureStatus 41000 example_recording example_capture))
        = uint (recording_time_ms example_capture) + 333"
    by (rule capture_status_resync) (simp_all add: example_recording_facts example_capture_def MSECS_PER_DAY_def)
  then show ?thesis by (simp add: example_recording_facts example_capture_def MSECS_PER_DAY_def)
qed


subsection \<open>Value reconciler\<close>

















subsection \<open>Spot area\<close>















end
